theory Spec2Isabelle
  imports Main "HOL-Library.Word" "HOL-Library.AList"
begin

section \<open>Level model (loglevel)\<close>

text \<open>
  \<^verbatim>\<open>type LogLevel uint8\<close> with the constants \<^verbatim>\<open>DEFAULT = iota\<close>, \<^verbatim>\<open>VERBOSE\<close>, ...,
  \<^verbatim>\<open>PANIC\<close>. Levels are only ever compared, as unsigned bytes.
\<close>

type_synonym LogLevel = "8 word"

definition DEFAULT :: LogLevel where "DEFAULT = 0"
definition VERBOSE :: LogLevel where "VERBOSE = 1"
definition DEBUG :: LogLevel where "DEBUG = 2"
definition INFO :: LogLevel where "INFO = 3"
definition WARN :: LogLevel where "WARN = 4"
definition ERROR :: LogLevel where "ERROR = 5"
definition PANIC :: LogLevel where "PANIC = 6"

section \<open>Data model\<close>

text \<open>
  Instants of \<^verbatim>\<open>time.Time\<close> are integers (any strictly monotone encoding of the clock).
  Pointers \<^verbatim>\<open>*LogRecord\<close> and \<^verbatim>\<open>*LoggerImpl\<close> are addresses into two stores kept in the
  package state; \<^verbatim>\<open>new(T)\<close> takes the next unused address. A nil slice or nil map is
  \<open>None\<close>, an allocated one is \<open>Some\<close>. A Go map is an association list read with
  \<open>map_of\<close> and written with \<open>upd_alist\<close>.
\<close>

type_synonym time = int
type_synonym error = string

record LogRecord =
  Time :: time
  Original :: time
  Level :: LogLevel
  Tags :: "string list option"
  Message :: string
  Logger :: nat

text \<open>
  \<^verbatim>\<open>container/ring\<close>: a ring is the value of the element its pointer designates and the
  values of the other elements in the order \<^verbatim>\<open>Next()\<close> reaches them; a nil \<^verbatim>\<open>Value\<close> is
  \<open>None\<close>, any other value is the address of a record. A nil \<^verbatim>\<open>*ring.Ring\<close> is \<open>None\<close>.
\<close>

type_synonym ring = "nat option \<times> nat option list"

record LoggerImpl =
  name :: string
  level :: LogLevel
  tagLevels :: "(string \<times> LogLevel) list option"
  buffer :: "ring option"

text \<open>
  A \<^verbatim>\<open>LogAppender\<close> is an interface value: an object with private state and its own
  \<^verbatim>\<open>Log\<close> method, which returns an error or nil and the object's new state.
\<close>

record 'a LogAppender =
  impl :: 'a
  Log :: "'a \<Rightarrow> LogRecord \<Rightarrow> error option \<times> 'a"

text \<open>
  A channel of errors as the select statement of \<^verbatim>\<open>logError\<close> sees it: its capacity,
  the values buffered in it, the number of receivers blocked on it, and the values already
  handed to such receivers.
\<close>

record errchan =
  cap :: nat
  buf :: "error list"
  receivers :: nat
  received :: "error list"

text \<open>The package-level variables.\<close>

record 'a state =
  defaultLogger :: nat
  loggerObjs :: "nat \<Rightarrow> LoggerImpl"
  nextLogger :: nat
  loggers :: "(string \<times> nat) list"
  recordObjs :: "nat \<Rightarrow> LogRecord"
  nextRecord :: nat
  appenders :: "'a LogAppender list"
  incomingChannel :: "nat list"
  logged :: "64 word"
  processed :: "64 word"
  logErrors :: "errchan option"
  enableVerbose :: "32 word"

definition notNil :: "'b option \<Rightarrow> bool" where
  "notNil p = (case p of None \<Rightarrow> False | Some x \<Rightarrow> True)"

definition elems :: "'b list option \<Rightarrow> 'b list" where
  "elems s = (case s of None \<Rightarrow> [] | Some xs \<Rightarrow> xs)"

section \<open>Level and tag resolution\<close>

text \<open>
  \<^verbatim>\<open>tagLevel, ok := m[tag]; ok && tagLevel <= l\<close> behind the guard \<^verbatim>\<open>m != nil\<close>.
\<close>

definition tagAllows :: "(string \<times> LogLevel) list option \<Rightarrow> string \<Rightarrow> LogLevel \<Rightarrow> bool" where
  "tagAllows m tag l =
     (case m of None \<Rightarrow> False
      | Some kvs \<Rightarrow> (case map_of kvs tag of None \<Rightarrow> False | Some tagLevel \<Rightarrow> tagLevel \<le> l))"

fun checkTagLevelLoop :: "'a state \<Rightarrow> nat \<Rightarrow> LogLevel \<Rightarrow> string list \<Rightarrow> bool" where
  "checkTagLevelLoop st logger l [] = False"
| "checkTagLevelLoop st logger l (tag # tags) =
     (if tagAllows (tagLevels (loggerObjs st logger)) tag l then True
      else if logger \<noteq> defaultLogger st
              \<and> tagAllows (tagLevels (loggerObjs st (defaultLogger st))) tag l then True
      else checkTagLevelLoop st logger l tags)"

definition checkTagLevel :: "'a state \<Rightarrow> nat \<Rightarrow> LogLevel \<Rightarrow> string list option \<Rightarrow> bool" where
  "checkTagLevel st logger l tags = checkTagLevelLoop st logger l (elems tags)"

definition checkLevelWithTags :: "'a state \<Rightarrow> nat \<Rightarrow> LogLevel \<Rightarrow> string list option \<Rightarrow> bool" where
  "checkLevelWithTags st logger l tags =
     (if (notNil (tagLevels (loggerObjs st logger))
            \<or> notNil (tagLevels (loggerObjs st (defaultLogger st))))
         \<and> notNil tags \<and> checkTagLevel st logger l tags
      then True
      else if level (loggerObjs st logger) \<noteq> DEFAULT then level (loggerObjs st logger) \<le> l
      else level (loggerObjs st (defaultLogger st)) \<le> l)"

text \<open>\<^verbatim>\<open>CheckLevel\<close> takes the read lock around \<^verbatim>\<open>checkLevelWithTags\<close>.\<close>

definition CheckLevel :: "'a state \<Rightarrow> nat \<Rightarrow> LogLevel \<Rightarrow> string list option \<Rightarrow> bool" where
  "CheckLevel st logger l tags = checkLevelWithTags st logger l tags"

subsection \<open>The resolution algorithm as the specification words it\<close>

text \<open>
  Written from section 4.1 of the specification, not from the code: emptiness of the tag
  list and of the two maps instead of nil tests, a search for the first tag that passes in
  either map, then the scalar fallback.
\<close>

definition spec_map_nonempty :: "(string \<times> LogLevel) list option \<Rightarrow> bool" where
  "spec_map_nonempty m = (case m of None \<Rightarrow> False | Some kvs \<Rightarrow> kvs \<noteq> [])"

definition spec_tag_level :: "(string \<times> LogLevel) list option \<Rightarrow> string \<Rightarrow> LogLevel option" where
  "spec_tag_level m tag = (case m of None \<Rightarrow> None | Some kvs \<Rightarrow> map_of kvs tag)"

definition spec_tag_passes :: "'a state \<Rightarrow> nat \<Rightarrow> LogLevel \<Rightarrow> string \<Rightarrow> bool" where
  "spec_tag_passes st logger l tag =
     ((case spec_tag_level (tagLevels (loggerObjs st logger)) tag of
         None \<Rightarrow> False | Some tagLevel \<Rightarrow> tagLevel \<le> l)
      \<or> (logger \<noteq> defaultLogger st
          \<and> (case spec_tag_level (tagLevels (loggerObjs st (defaultLogger st))) tag of
                None \<Rightarrow> False | Some tagLevel \<Rightarrow> tagLevel \<le> l)))"

definition spec_scalar :: "'a state \<Rightarrow> nat \<Rightarrow> LogLevel \<Rightarrow> bool" where
  "spec_scalar st logger l =
     (if level (loggerObjs st logger) \<noteq> DEFAULT then level (loggerObjs st logger) \<le> l
      else level (loggerObjs st (defaultLogger st)) \<le> l)"

definition spec_resolve :: "'a state \<Rightarrow> nat \<Rightarrow> LogLevel \<Rightarrow> string list option \<Rightarrow> bool" where
  "spec_resolve st logger l tags =
     (if elems tags \<noteq> []
         \<and> (spec_map_nonempty (tagLevels (loggerObjs st logger))
              \<or> spec_map_nonempty (tagLevels (loggerObjs st (defaultLogger st))))
         \<and> find (spec_tag_passes st logger l) (elems tags) \<noteq> None
      then True
      else spec_scalar st logger l)"

section \<open>Replay buffer (container/ring)\<close>

text \<open>
  \<^verbatim>\<open>ring.New(n)\<close> returns nil for \<^verbatim>\<open>n <= 0\<close> and otherwise a ring of \<open>n\<close> elements with
  nil values; \<^verbatim>\<open>Len\<close> of a nil ring is 0; \<^verbatim>\<open>Next\<close> moves the pointer one element on;
  \<^verbatim>\<open>Do\<close> visits the values from the pointer on, once round the ring.
\<close>

definition ring_New :: "int \<Rightarrow> ring option" where
  "ring_New n = (if n \<le> 0 then None else Some (None, replicate (nat n - 1) None))"

definition ring_Len :: "ring option \<Rightarrow> int" where
  "ring_Len r = (case r of None \<Rightarrow> 0 | Some (x, xs) \<Rightarrow> 1 + int (length xs))"

fun ring_Next :: "ring \<Rightarrow> ring" where
  "ring_Next (x, []) = (x, [])"
| "ring_Next (x, y # ys) = (y, ys @ [x])"

text \<open>\<^verbatim>\<open>r.Next().Value = v\<close>; in a ring of one element \<^verbatim>\<open>r.Next()\<close> is \<open>r\<close>.\<close>

fun ring_setNextValue :: "nat option \<Rightarrow> ring \<Rightarrow> ring" where
  "ring_setNextValue v (x, []) = (v, [])"
| "ring_setNextValue v (x, y # ys) = (x, v # ys)"

definition ring_Do :: "ring option \<Rightarrow> nat option list" where
  "ring_Do r = (case r of None \<Rightarrow> [] | Some (x, xs) \<Rightarrow> x # xs)"

text \<open>
  The entries of a ring from the oldest write to the newest: the pointer designates the
  element written last, so the oldest is the element after it.
\<close>

definition ring_oldest_first :: "ring \<Rightarrow> nat option list" where
  "ring_oldest_first r = snd r @ [fst r]"

section \<open>Sink chain\<close>

text \<open>
  The select statement of \<^verbatim>\<open>logError\<close>: the send is taken when a receiver is blocked on
  the channel or the buffer has room, the default branch otherwise. The channel is open:
  nothing in the package closes it.
\<close>

definition trySend :: "error \<Rightarrow> errchan \<Rightarrow> errchan" where
  "trySend e ch =
     (if 0 < receivers ch
      then ch\<lparr>receivers := receivers ch - 1, received := received ch @ [e]\<rparr>
      else if length (buf ch) < cap ch then ch\<lparr>buf := buf ch @ [e]\<rparr>
      else ch)"

definition logError :: "error option \<Rightarrow> errchan option \<Rightarrow> errchan option" where
  "logError err errs =
     (case err of None \<Rightarrow> errs
      | Some e \<Rightarrow> (case errs of None \<Rightarrow> None | Some ch \<Rightarrow> Some (trySend e ch)))"

text \<open>
  The loop of \<^verbatim>\<open>logToAppenders\<close> over the appender list and the error channel; each
  appender reads the record and keeps its new state.
\<close>

fun logEach :: "LogRecord \<Rightarrow> 'a LogAppender list \<Rightarrow> errchan option
    \<Rightarrow> 'a LogAppender list \<times> errchan option" where
  "logEach r [] errs = ([], errs)"
| "logEach r (appender # rest) errs =
     (case Log appender (impl appender) r of
        (err, s) \<Rightarrow>
          (case logEach r rest (logError err errs) of
             (rest', errs') \<Rightarrow> (appender\<lparr>impl := s\<rparr> # rest', errs')))"

definition logToAppenders :: "nat \<Rightarrow> 'a state \<Rightarrow> 'a state" where
  "logToAppenders record st =
     (case logEach (recordObjs st record) (appenders st) (logErrors st) of
        (apps, errs) \<Rightarrow> st\<lparr>appenders := apps, logErrors := errs\<rparr>)"

definition CaptureLoggingErrors :: "errchan option \<Rightarrow> 'a state \<Rightarrow> 'a state" where
  "CaptureLoggingErrors errs st = st\<lparr>logErrors := errs\<rparr>"

text \<open>
  What one call of an appender's \<^verbatim>\<open>Log\<close> leaves of the appender, and the errors the
  appenders of a list return for a record, nil results left out.
\<close>

definition afterLog :: "LogRecord \<Rightarrow> 'a LogAppender \<Rightarrow> 'a LogAppender" where
  "afterLog r appender = appender\<lparr>impl := snd (Log appender (impl appender) r)\<rparr>"

definition errorsOf :: "LogRecord \<Rightarrow> 'a LogAppender list \<Rightarrow> error list" where
  "errorsOf r apps = List.map_filter (\<lambda>appender. fst (Log appender (impl appender) r)) apps"

text \<open>The test appenders of the package, with their counter as private state.\<close>

definition NullAppender_Log :: "64 word \<Rightarrow> LogRecord \<Rightarrow> error option \<times> 64 word" where
  "NullAppender_Log count r = (None, count + 1)"

definition ErrorAppender_Log :: "64 word \<Rightarrow> LogRecord \<Rightarrow> error option \<times> 64 word" where
  "ErrorAppender_Log count r = (Some (''error: '' @ Message r), count + 1)"

definition NewNullAppender :: "64 word LogAppender" where
  "NewNullAppender = \<lparr>impl = 0, Log = NullAppender_Log\<rparr>"

definition NewErrorAppender :: "64 word LogAppender" where
  "NewErrorAppender = \<lparr>impl = 0, Log = ErrorAppender_Log\<rparr>"

section \<open>Dispatch pipeline\<close>

text \<open>
  A call that sends on \<^verbatim>\<open>incomingChannel\<close> (capacity 2048) either returns or blocks on
  the full channel, where only the consumer can release it; \<open>Blocks\<close> carries the state
  at that point.
\<close>

datatype ('r, 's) outcome = Returns 'r 's | Blocks 's

fun final :: "('r, 's) outcome \<Rightarrow> 's" where
  "final (Returns r s) = s"
| "final (Blocks s) = s"

definition incomingCap :: nat where
  "incomingCap = 2048"

definition setLogger :: "nat \<Rightarrow> LoggerImpl \<Rightarrow> 'a state \<Rightarrow> 'a state" where
  "setLogger logger obj st = st\<lparr>loggerObjs := (loggerObjs st)(logger := obj)\<rparr>"

definition setRecord :: "nat \<Rightarrow> LogRecord \<Rightarrow> 'a state \<Rightarrow> 'a state" where
  "setRecord record obj st = st\<lparr>recordObjs := (recordObjs st)(record := obj)\<rparr>"

definition processLogRecord :: "nat \<Rightarrow> 'a state \<Rightarrow> 'a state" where
  "processLogRecord record st =
     (let logger = Logger (recordObjs st record);
          passed = checkLevelWithTags st logger (Level (recordObjs st record))
                     (Tags (recordObjs st record));
          st1 = (if passed then logToAppenders record st
                 else (case buffer (loggerObjs st logger) of
                         None \<Rightarrow> st
                       | Some b \<Rightarrow>
                           if VERBOSE < Level (recordObjs st record)
                           then setLogger logger
                                  ((loggerObjs st logger)
                                     \<lparr>buffer := Some (ring_Next (ring_setNextValue (Some record) b))\<rparr>) st
                           else st))
      in st1\<lparr>processed := processed st1 + 1\<rparr>)"

text \<open>
  The branch \<^verbatim>\<open>case record := <-incomingChannel\<close> of \<^verbatim>\<open>processIncoming\<close> while running: the
  oldest record of the queue is received and processed.
\<close>

definition receiveOne :: "'a state \<Rightarrow> 'a state" where
  "receiveOne st =
     (case incomingChannel st of
        [] \<Rightarrow> st
      | record # rest \<Rightarrow> processLogRecord record (st\<lparr>incomingChannel := rest\<rparr>))"

text \<open>
  \<^verbatim>\<open>NewLogRecord\<close> allocates the record; \<^verbatim>\<open>logwithformat\<close> takes the instant read from
  the clock, what \<^verbatim>\<open>runtime.Stack\<close> returns and the string that \<^verbatim>\<open>fmt.Sprint\<close> or
  \<^verbatim>\<open>fmt.Sprintf\<close> makes of the format and the arguments.
\<close>

definition NewLogRecord :: "nat \<Rightarrow> LogLevel \<Rightarrow> string list option \<Rightarrow> string \<Rightarrow> time \<Rightarrow> time
    \<Rightarrow> 'a state \<Rightarrow> nat \<times> 'a state" where
  "NewLogRecord logger lvl tags message t original st =
     (nextRecord st,
      (setRecord (nextRecord st)
         \<lparr>Time = t, Original = original, Level = lvl, Tags = tags, Message = message,
          Logger = logger\<rparr> st)\<lparr>nextRecord := Suc (nextRecord st)\<rparr>)"

definition indentStack :: "string \<Rightarrow> string" where
  "indentStack stack = concat (map (\<lambda>c. if c = CHR 0x0A then [CHR 0x0A, CHR '' '', CHR '' ''] else [c]) stack)"

definition logwithformat :: "time \<Rightarrow> string \<Rightarrow> nat \<Rightarrow> LogLevel \<Rightarrow> string list option \<Rightarrow> string
    \<Rightarrow> 'a state \<Rightarrow> (64 word, 'a state) outcome" where
  "logwithformat now stack logger lvl tags formatted st =
     (if lvl = VERBOSE \<and> enableVerbose st \<noteq> 1 then Returns 0 st
      else
        let msg = (if lvl = PANIC
                   then formatted @ [CHR 0x0A, CHR '' '', CHR '' ''] @ indentStack stack
                   else formatted)
        in (case NewLogRecord logger lvl tags msg now now st of
              (logRecord, st1) \<Rightarrow>
                let logNum = logged st1 + 1;
                    st2 = st1\<lparr>logged := logNum\<rparr>
                in if length (incomingChannel st2) < incomingCap
                   then Returns logNum (st2\<lparr>incomingChannel := incomingChannel st2 @ [logRecord]\<rparr>)
                   else Blocks st2))"

definition EnableVerboseLogging :: "'a state \<Rightarrow> 'a state" where
  "EnableVerboseLogging st = st\<lparr>enableVerbose := 1\<rparr>"

definition DisableVerboseLogging :: "'a state \<Rightarrow> 'a state" where
  "DisableVerboseLogging st = st\<lparr>enableVerbose := 0\<rparr>"

section \<open>Logger registry: buffer length, levels and the flush\<close>

definition setBufferLengthImpl :: "int \<Rightarrow> nat \<Rightarrow> 'a state \<Rightarrow> 'a state" where
  "setBufferLengthImpl len logger st =
     (if len = 0 then setLogger logger ((loggerObjs st logger)\<lparr>buffer := None\<rparr>) st
      else if len \<noteq> ring_Len (buffer (loggerObjs st logger))
      then setLogger logger ((loggerObjs st logger)\<lparr>buffer := ring_New len\<rparr>) st
      else st)"

definition SetBufferLength :: "int \<Rightarrow> nat \<Rightarrow> 'a state \<Rightarrow> 'a state" where
  "SetBufferLength len logger st = setBufferLengthImpl len logger st"

text \<open>
  The function that \<^verbatim>\<open>flushBuffer\<close> starts as a goroutine, over the values \<^verbatim>\<open>Do\<close>
  visits: it stamps the record, counts it and sends it.
\<close>

fun flushTask :: "time \<Rightarrow> nat option list \<Rightarrow> 'a state \<Rightarrow> (unit, 'a state) outcome" where
  "flushTask now [] st = Returns () st"
| "flushTask now (None # xs) st = flushTask now xs st"
| "flushTask now (Some record # xs) st =
     (let st1 = setRecord record ((recordObjs st record)\<lparr>Time := now\<rparr>) st;
          st2 = st1\<lparr>logged := logged st1 + 1\<rparr>
      in if length (incomingChannel st2) < incomingCap
         then flushTask now xs (st2\<lparr>incomingChannel := incomingChannel st2 @ [record]\<rparr>)
         else Blocks st2)"

text \<open>
  \<^verbatim>\<open>flushBuffer\<close> under the lock: the buffer is swapped for a new ring and the task over
  the old one is returned with the instant it read; without a buffer there is no task.
\<close>

definition flushBuffer :: "time \<Rightarrow> nat \<Rightarrow> 'a state \<Rightarrow> 'a state \<times> (time \<times> ring) option" where
  "flushBuffer now logger st =
     (case buffer (loggerObjs st logger) of
        None \<Rightarrow> (st, None)
      | Some oldBuffer \<Rightarrow>
          (setLogger logger
             ((loggerObjs st logger)\<lparr>buffer := ring_New (ring_Len (Some oldBuffer))\<rparr>) st,
           Some (now, oldBuffer)))"

text \<open>
  \<^verbatim>\<open>flushAllLoggers\<close>: every logger of the registry, then the default logger; \<open>clock\<close>
  gives the instant each logger's \<^verbatim>\<open>flushBuffer\<close> reads. The registry is ranged over in
  the order of its association list, one of the orders Go may choose.
\<close>

fun flushEach :: "(nat \<Rightarrow> time) \<Rightarrow> nat list \<Rightarrow> 'a state \<Rightarrow> 'a state \<times> (time \<times> ring) option list" where
  "flushEach clock [] st = (st, [])"
| "flushEach clock (val # vals) st =
     (case flushBuffer (clock val) val st of
        (st1, task) \<Rightarrow> (case flushEach clock vals st1 of (st2, tasks) \<Rightarrow> (st2, task # tasks)))"

definition flushAllLoggers :: "(nat \<Rightarrow> time) \<Rightarrow> 'a state \<Rightarrow> 'a state \<times> (time \<times> ring) option list" where
  "flushAllLoggers clock st = flushEach clock (map snd (loggers st) @ [defaultLogger st]) st"

text \<open>
  \<^verbatim>\<open>wait.Wait()\<close>: the caller returns when every task has finished. The tasks run
  concurrently in the program; here they run one after the other, which is one of the
  schedules.
\<close>

fun runTasks :: "(time \<times> ring) option list \<Rightarrow> 'a state \<Rightarrow> (unit, 'a state) outcome" where
  "runTasks [] st = Returns () st"
| "runTasks (None # tasks) st = runTasks tasks st"
| "runTasks (Some (now, oldBuffer) # tasks) st =
     (case flushTask now (ring_Do (Some oldBuffer)) st of
        Returns u st1 \<Rightarrow> runTasks tasks st1
      | Blocks st1 \<Rightarrow> Blocks st1)"

definition flushFor :: "(nat \<Rightarrow> time) \<Rightarrow> nat \<Rightarrow> 'a state \<Rightarrow> (unit, 'a state) outcome" where
  "flushFor clock logger st =
     (case (if logger = defaultLogger st then flushAllLoggers clock st
            else (case flushBuffer (clock logger) logger st of (st1, task) \<Rightarrow> (st1, [task]))) of
        (st2, tasks) \<Rightarrow> runTasks tasks st2)"

definition SetLogLevel :: "(nat \<Rightarrow> time) \<Rightarrow> nat \<Rightarrow> LogLevel \<Rightarrow> 'a state \<Rightarrow> (unit, 'a state) outcome" where
  "SetLogLevel clock logger l st =
     flushFor clock logger (setLogger logger ((loggerObjs st logger)\<lparr>level := l\<rparr>) st)"

definition SetTagLevel :: "(nat \<Rightarrow> time) \<Rightarrow> nat \<Rightarrow> string \<Rightarrow> LogLevel \<Rightarrow> 'a state
    \<Rightarrow> (unit, 'a state) outcome" where
  "SetTagLevel clock logger tag l st =
     flushFor clock logger
       (setLogger logger
          ((loggerObjs st logger)
             \<lparr>tagLevels := Some (AList.update tag l (elems (tagLevels (loggerObjs st logger))))\<rparr>) st)"

text \<open>\<^verbatim>\<open>GetLogger\<close>: the registered logger of that name, or a new one.\<close>

definition GetLogger :: "string \<Rightarrow> 'a state \<Rightarrow> nat \<times> 'a state" where
  "GetLogger nm st =
     (case map_of (loggers st) nm of
        Some logger \<Rightarrow> (logger, st)
      | None \<Rightarrow>
          let logger = nextLogger st;
              st1 = (setLogger logger
                       \<lparr>name = nm, level = DEFAULT, tagLevels = None, buffer = None\<rparr> st)
                      \<lparr>nextLogger := Suc logger\<rparr>;
              st2 = SetBufferLength (ring_Len (buffer (loggerObjs st1 (defaultLogger st1)))) logger st1
          in (logger, st2\<lparr>loggers := AList.update nm logger (loggers st2)\<rparr>))"

section \<open>Rotating file sink\<close>

subsection \<open>The operating system as the sink uses it\<close>

text \<open>
  A path names nothing, a regular file with its bytes, or something \<^verbatim>\<open>os.Stat\<close> fails on
  with an error other than "does not exist" (a directory that cannot be searched, an I/O
  error). \<^verbatim>\<open>os.Rename\<close> replaces an existing regular file. The calls that change the
  file system are recorded in a journal in the order they are made.
\<close>

datatype fnode = Absent | Regular string | Unreadable

datatype oserror = ErrNotExist | ErrOther

datatype oscall = Remove string | Rename string string | Write string string

record filesys =
  files :: "string \<Rightarrow> fnode"
  journal :: "oscall list"

definition IsNotExist :: "oserror \<Rightarrow> bool" where
  "IsNotExist err = (case err of ErrNotExist \<Rightarrow> True | ErrOther \<Rightarrow> False)"

definition os_Stat :: "filesys \<Rightarrow> string \<Rightarrow> oserror + int" where
  "os_Stat fs path =
     (case files fs path of
        Absent \<Rightarrow> Inl ErrNotExist
      | Unreadable \<Rightarrow> Inl ErrOther
      | Regular bytes \<Rightarrow> Inr (int (length bytes)))"

definition os_Remove :: "string \<Rightarrow> filesys \<Rightarrow> oserror option \<times> filesys" where
  "os_Remove path fs =
     (case files fs path of
        Absent \<Rightarrow> (Some ErrNotExist, fs\<lparr>journal := journal fs @ [Remove path]\<rparr>)
      | Unreadable \<Rightarrow> (Some ErrOther, fs\<lparr>journal := journal fs @ [Remove path]\<rparr>)
      | Regular bytes \<Rightarrow>
          (None, fs\<lparr>files := (files fs)(path := Absent),
                     journal := journal fs @ [Remove path]\<rparr>))"

definition os_Rename :: "string \<Rightarrow> string \<Rightarrow> filesys \<Rightarrow> oserror option \<times> filesys" where
  "os_Rename oldpath newpath fs =
     (case files fs oldpath of
        Absent \<Rightarrow> (Some ErrNotExist, fs\<lparr>journal := journal fs @ [Rename oldpath newpath]\<rparr>)
      | Unreadable \<Rightarrow> (Some ErrOther, fs\<lparr>journal := journal fs @ [Rename oldpath newpath]\<rparr>)
      | Regular bytes \<Rightarrow>
          (case files fs newpath of
             Unreadable \<Rightarrow>
               (Some ErrOther, fs\<lparr>journal := journal fs @ [Rename oldpath newpath]\<rparr>)
           | _ \<Rightarrow>
               (None, fs\<lparr>files := (files fs)(newpath := Regular bytes, oldpath := Absent),
                          journal := journal fs @ [Rename oldpath newpath]\<rparr>)))"

text \<open>Writing the bytes a \<^verbatim>\<open>bufio.Writer\<close> holds to the file opened at \<open>path\<close>.\<close>

definition os_Write :: "string \<Rightarrow> string \<Rightarrow> filesys \<Rightarrow> oserror option \<times> filesys" where
  "os_Write path bytes fs =
     (if bytes = [] then (None, fs)
      else (case files fs path of
              Regular old \<Rightarrow>
                (None, fs\<lparr>files := (files fs)(path := Regular (old @ bytes)),
                           journal := journal fs @ [Write path bytes]\<rparr>)
            | _ \<Rightarrow> (Some ErrOther, fs\<lparr>journal := journal fs @ [Write path bytes]\<rparr>)))"

subsection \<open>RollingFileAppender\<close>

text \<open>
  \<open>currentFile\<close> is the path the open file was opened at, \<open>currentWriter\<close> the bytes
  buffered in the writer and not yet flushed. \<open>maxFiles\<close> is an int16, read with
  \<open>sint\<close>; \<open>maxFileSize\<close> and file sizes are int64 values that are only compared.
\<close>

record RollingFileAppender =
  baseLevel :: LogLevel
  prefix :: string
  suffix :: string
  maxFileSize :: int
  maxFiles :: "16 word"
  firstTime :: bool
  currentFile :: "string option"
  currentWriter :: "string option"

definition NewRollingFileAppender :: "string \<Rightarrow> string \<Rightarrow> int \<Rightarrow> 16 word \<Rightarrow> RollingFileAppender" where
  "NewRollingFileAppender pre suf maxSize n =
     \<lparr>baseLevel = DEFAULT,
      prefix = pre,
      suffix = suf,
      maxFileSize = (if maxSize < 1024 then 1024 else maxSize),
      maxFiles = (if sint n \<le> 0 then 1 else n),
      firstTime = True,
      currentFile = None,
      currentWriter = None\<rparr>"

text \<open>\<^verbatim>\<open>%d\<close> of \<^verbatim>\<open>fmt.Sprintf\<close>: the decimal digits of an integer.\<close>

fun digits :: "nat \<Rightarrow> string" where
  "digits n =
     (if n < 10 then [''0123456789'' ! n]
      else digits (n div 10) @ [''0123456789'' ! (n mod 10)])"

declare digits.simps [simp del]

definition decimal :: "int \<Rightarrow> string" where
  "decimal i = (if i < 0 then CHR ''-'' # digits (nat (- i)) else digits (nat i))"

definition currentFileName :: "RollingFileAppender \<Rightarrow> string" where
  "currentFileName appender = prefix appender @ ''.'' @ suffix appender"

definition numberedFileName :: "RollingFileAppender \<Rightarrow> int \<Rightarrow> string" where
  "numberedFileName appender i =
     prefix appender @ ''.'' @ decimal i @ ''.'' @ suffix appender"

definition Close :: "RollingFileAppender \<Rightarrow> filesys
    \<Rightarrow> oserror option \<times> RollingFileAppender \<times> filesys" where
  "Close appender fs =
     (case (case currentWriter appender of
              None \<Rightarrow> (None, appender, fs)
            | Some bytes \<Rightarrow>
                (case os_Write (case currentFile appender of None \<Rightarrow> [] | Some p \<Rightarrow> p) bytes fs of
                   (err, fs1) \<Rightarrow> (err, appender\<lparr>currentWriter := None\<rparr>, fs1))) of
        (err, appender1, fs1) \<Rightarrow>
          (case currentFile appender1 of
             None \<Rightarrow> (err, appender1, fs1)
           | Some p \<Rightarrow> (None, appender1\<lparr>currentFile := None\<rparr>, fs1)))"

definition needsRoll :: "RollingFileAppender \<Rightarrow> filesys \<Rightarrow> bool" where
  "needsRoll appender fs =
     (if maxFiles appender = 1
      then (case os_Stat fs (currentFileName appender) of
              Inl err \<Rightarrow> IsNotExist err
            | Inr info \<Rightarrow> False)
      else if firstTime appender then True
      else (case os_Stat fs (currentFileName appender) of
              Inl err \<Rightarrow> True
            | Inr info \<Rightarrow> if maxFileSize appender \<le> info then True else False))"

text \<open>
  The body of the loop of \<^verbatim>\<open>Roll\<close> for the values of \<open>i\<close> in the list, in order; the
  result is the error returned, if any, and the file system.
\<close>

fun rollLoop :: "RollingFileAppender \<Rightarrow> int list \<Rightarrow> filesys \<Rightarrow> oserror option \<times> filesys" where
  "rollLoop appender [] fs = (None, fs)"
| "rollLoop appender (i # rest) fs =
     (let fileName = (if i = 0 then currentFileName appender else numberedFileName appender i)
      in (case os_Stat fs fileName of
            Inl err \<Rightarrow> (if IsNotExist err then rollLoop appender rest fs else (Some err, fs))
          | Inr info \<Rightarrow>
              (let nextFileName = numberedFileName appender (i + 1)
               in (case (case os_Stat fs nextFileName of
                           Inl err \<Rightarrow>
                             (if IsNotExist err then (None, fs) else os_Remove nextFileName fs)
                         | Inr info' \<Rightarrow> (None, fs)) of
                     (Some err, fs1) \<Rightarrow> (Some err, fs1)
                   | (None, fs1) \<Rightarrow>
                       (case os_Rename fileName nextFileName fs1 of
                          (Some err, fs2) \<Rightarrow> (Some err, fs2)
                        | (None, fs2) \<Rightarrow> rollLoop appender rest fs2)))))"

definition Roll :: "RollingFileAppender \<Rightarrow> filesys
    \<Rightarrow> oserror option \<times> RollingFileAppender \<times> filesys" where
  "Roll appender fs =
     (case Close appender fs of
        (closeErr, appender1, fs1) \<Rightarrow>
          (case rollLoop appender1 (rev [0 .. sint (maxFiles appender1 - 2)]) fs1 of
             (err, fs2) \<Rightarrow> (err, appender1\<lparr>firstTime := False\<rparr>, fs2)))"

section \<open>The package after init\<close>

text \<open>
  \<^verbatim>\<open>init()\<close>: the default logger \<^verbatim>\<open>_default\<close> at level INFO without a buffer, an empty
  registry, no error channel, verbose logging off. The appender list is a parameter (the
  package starts with one stderr appender, the tests replace it).
\<close>

definition zeroRecord :: LogRecord where
  "zeroRecord = \<lparr>Time = 0, Original = 0, Level = 0, Tags = None, Message = [], Logger = 0\<rparr>"

definition zeroLogger :: LoggerImpl where
  "zeroLogger = \<lparr>name = [], level = 0, tagLevels = None, buffer = None\<rparr>"

definition initial :: "'a LogAppender list \<Rightarrow> 'a state" where
  "initial apps =
     SetBufferLength 0 0
       \<lparr>defaultLogger = 0,
        loggerObjs = (\<lambda>a. zeroLogger)(0 := zeroLogger\<lparr>name := ''_default'', level := INFO\<rparr>),
        nextLogger = 1,
        loggers = [],
        recordObjs = (\<lambda>a. zeroRecord),
        nextRecord = 0,
        appenders = apps,
        incomingChannel = [],
        logged = 0,
        processed = 0,
        logErrors = None,
        enableVerbose = 0\<rparr>"

section \<open>Runs of the package's tests\<close>

text \<open>
  \<^verbatim>\<open>TestBuffer\<close>, with a buffer of three: the logger \<^verbatim>\<open>db\<close> (the first logger allocated
  after the default one, at address 1) is set to ERROR, then logs at ERROR, WARN, INFO and
  DEBUG at the instants 10 to 13; the consumer receives the four records; the level is then
  set to DEBUG at the instant 100.
\<close>

definition testBuffer_setup :: "64 word state" where
  "testBuffer_setup =
     (case GetLogger ''db'' (initial [NewNullAppender]) of
        (logger, st) \<Rightarrow> SetBufferLength 3 logger (final (SetLogLevel (\<lambda>a. 1) logger ERROR st)))"

definition testBuffer_logged :: "64 word state" where
  "testBuffer_logged =
     final (logwithformat 13 [] 1 DEBUG None ''debug''
       (final (logwithformat 12 [] 1 INFO None ''info''
         (final (logwithformat 11 [] 1 WARN None ''warn''
           (final (logwithformat 10 [] 1 ERROR None ''error'' testBuffer_setup)))))))"

definition testBuffer_received1 :: "64 word state" where
  "testBuffer_received1 = receiveOne testBuffer_logged"

definition testBuffer_consumed :: "64 word state" where
  "testBuffer_consumed = receiveOne (receiveOne (receiveOne testBuffer_received1))"

definition testBuffer_flushed :: "64 word state" where
  "testBuffer_flushed = final (SetLogLevel (\<lambda>a. 100) 1 DEBUG testBuffer_consumed)"

text \<open>A DEBUG record of the default logger, which is at INFO and has no buffer.\<close>

definition unbuffered_logged :: "64 word state" where
  "unbuffered_logged =
     final (logwithformat 10 [] 0 DEBUG None ''debug'' (initial [NewNullAppender]))"

text \<open>
  \<^verbatim>\<open>TestErrorChannelWontBlock\<close> in small: two error appenders around a null appender, an
  error channel of capacity one, and an ERROR record of the default logger.
\<close>

definition errorChannel_logged :: "64 word state" where
  "errorChannel_logged =
     final (logwithformat 10 [] 0 ERROR None ''m''
       (CaptureLoggingErrors (Some \<lparr>cap = 1, buf = [], receivers = 0, received = []\<rparr>)
          (initial [NewErrorAppender, NewNullAppender, NewErrorAppender])))"

text \<open>The logger \<^verbatim>\<open>db\<close> at ERROR with the tag \<^verbatim>\<open>net\<close> at DEBUG.\<close>

definition tagged_setup :: "64 word state" where
  "tagged_setup =
     (case GetLogger ''db'' (initial []) of
        (logger, st) \<Rightarrow>
          final (SetTagLevel (\<lambda>a. 2) logger ''net'' DEBUG
            (final (SetLogLevel (\<lambda>a. 1) logger ERROR st))))"

section \<open>Properties of level and tag resolution\<close>

lemma checkTagLevelLoop_find:
  "checkTagLevelLoop st logger l ts = (find (spec_tag_passes st logger l) ts \<noteq> None)"
  by (induction ts) (auto simp: spec_tag_passes_def spec_tag_level_def tagAllows_def
      split: option.splits)

lemma checkTagLevelLoop_needs_map:
  "checkTagLevelLoop st logger l ts \<Longrightarrow>
     spec_map_nonempty (tagLevels (loggerObjs st logger))
     \<or> spec_map_nonempty (tagLevels (loggerObjs st (defaultLogger st)))"
  by (induction ts) (auto simp: spec_map_nonempty_def tagAllows_def
      split: option.splits if_splits)

lemma checkTagLevelLoop_needs_tags: "checkTagLevelLoop st logger l ts \<Longrightarrow> ts \<noteq> []"
  by (cases ts) auto

lemma nonempty_notNil: "spec_map_nonempty m \<Longrightarrow> notNil m"
  by (auto simp: spec_map_nonempty_def notNil_def split: option.splits)

lemma elems_notNil: "elems t \<noteq> [] \<Longrightarrow> notNil t"
  by (auto simp: elems_def notNil_def split: option.splits)

text \<open>
  C1. For every logger, requested level and tag list, \<open>CheckLevel\<close> returns exactly what
  the two-step algorithm of section 4.1 computes: a scan of the tags in the caller's order
  that passes on the first tag allowed by the logger's map or (for a logger other than the
  default one) by the default logger's map, a too-strict tag never vetoing another; and,
  when no tag matches, the logger's own level unless it is DEFAULT, else the default
  logger's level.
\<close>

theorem CheckLevel_refines_spec:
  "CheckLevel st logger l tags = spec_resolve st logger l tags"
proof (cases "checkTagLevel st logger l tags")
  case True
  then have loop: "checkTagLevelLoop st logger l (elems tags)"
    by (simp add: checkTagLevel_def)
  from checkTagLevelLoop_needs_map [OF loop]
  have maps: "spec_map_nonempty (tagLevels (loggerObjs st logger))
     \<or> spec_map_nonempty (tagLevels (loggerObjs st (defaultLogger st)))" .
  then have nn: "notNil (tagLevels (loggerObjs st logger))
     \<or> notNil (tagLevels (loggerObjs st (defaultLogger st)))"
    using nonempty_notNil by blast
  have ne: "elems tags \<noteq> []" using checkTagLevelLoop_needs_tags [OF loop] .
  have fnd: "find (spec_tag_passes st logger l) (elems tags) \<noteq> None"
    using loop by (simp add: checkTagLevelLoop_find)
  show ?thesis
    using True maps nn ne fnd elems_notNil [OF ne]
    by (simp add: CheckLevel_def checkLevelWithTags_def spec_resolve_def)
next
  case False
  then have "find (spec_tag_passes st logger l) (elems tags) = None"
    by (simp add: checkTagLevel_def checkTagLevelLoop_find)
  with False show ?thesis
    by (simp add: CheckLevel_def checkLevelWithTags_def spec_resolve_def spec_scalar_def)
qed

end
